theory Spec2Isabelle
  imports Main "HOL-Library.AList"
begin

section \<open>Data model of \<^verbatim>\<open>config_common.py\<close>\<close>

text \<open>
  Python values that the configuration library stores as macro values, section names
  and optional arguments are either \<^verbatim>\<open>None\<close> or a \<^verbatim>\<open>str\<close>; they are modelled as
  \<^typ>\<open>string option\<close>. A character is a code point below 256.

  Exceptions are values of \<open>pyerror\<close>; a call that may raise returns \<open>pyerror + 'a\<close>.
\<close>

datatype pyerror =
  KeyError | TypeError | AttributeError | IndexError | FileNotFoundError | OSError | ReError

text \<open>Truthiness of an optional string: \<^verbatim>\<open>None\<close> and \<^verbatim>\<open>''\<close> are false.\<close>

fun truthy :: "string option \<Rightarrow> bool" where
  "truthy None = False"
| "truthy (Some s) = (s \<noteq> [])"

text \<open>
  \<^verbatim>\<open>class Setting\<close>: the field \<^verbatim>\<open>configfile\<close> is a reference to a \<^verbatim>\<open>ConfigFile\<close>
  object, shared by all the settings of that file; it is an address in the object store.
\<close>

record setting =
  setting_active :: bool
  setting_name :: string
  setting_value :: "string option"
  setting_section :: "string option"
  setting_configfile :: nat

text \<open>\<^verbatim>\<open>Setting.__init__(self, configfile, active, name, value='', section=None)\<close>\<close>

definition Setting_init ::
  "nat \<Rightarrow> bool \<Rightarrow> string \<Rightarrow> string option \<Rightarrow> string option \<Rightarrow> setting" where
  "Setting_init configfile active name v section =
     \<lparr> setting_active = active, setting_name = name, setting_value = v,
       setting_section = section, setting_configfile = configfile \<rparr>"

text \<open>
  An element of \<^verbatim>\<open>ConfigFile.templates\<close>: a \<^verbatim>\<open>str\<close> (a line kept as it is) or a tuple
  \<^verbatim>\<open>(name, indent, middle)\<close>.
\<close>

datatype template = Verbatim string | Param string string string

record configfile =
  cf_filename :: string
  cf_templates :: "template list"
  cf_current_section :: "string option"
  cf_inclusion_guard :: "string option"
  cf_modified :: bool

text \<open>
  \<^verbatim>\<open>class Config\<close>: \<^verbatim>\<open>settings\<close> is a dict from names to \<^verbatim>\<open>Setting\<close> objects, kept as
  an association list in insertion order (each key has a \<^verbatim>\<open>Setting\<close> object of its own);
  \<^verbatim>\<open>configfiles\<close> is a list of references. The object store holds the \<^verbatim>\<open>ConfigFile\<close>
  objects; it is total, as a Python reference always denotes an object.
\<close>

record config =
  cfg_settings :: "(string \<times> setting) list"
  cfg_configfiles :: "nat list"
  store :: "nat \<Rightarrow> configfile"

text \<open>\<^verbatim>\<open>setting.configfile.modified = True\<close>\<close>

definition mark_modified :: "nat \<Rightarrow> (nat \<Rightarrow> configfile) \<Rightarrow> (nat \<Rightarrow> configfile)" where
  "mark_modified r h = h(r := (h r)\<lparr>cf_modified := True\<rparr>)"

section \<open>Queries of \<^verbatim>\<open>Config\<close>\<close>

text \<open>\<^verbatim>\<open>name in self.settings\<close>\<close>

definition in_settings :: "(string \<times> setting) list \<Rightarrow> string \<Rightarrow> bool" where
  "in_settings d name = (map_of d name \<noteq> None)"

text \<open>\<^verbatim>\<open>Config.__contains__\<close>: \<^verbatim>\<open>name in self.settings and self.settings[name].active\<close>\<close>

definition Config_contains :: "config \<Rightarrow> string \<Rightarrow> bool" where
  "Config_contains c name =
     (case map_of (cfg_settings c) name of
        None \<Rightarrow> False
      | Some s \<Rightarrow> setting_active s)"

text \<open>\<^verbatim>\<open>Config.known\<close>: \<^verbatim>\<open>name in self.settings\<close>\<close>

definition Config_known :: "config \<Rightarrow> string \<Rightarrow> bool" where
  "Config_known c name = in_settings (cfg_settings c) name"

text \<open>\<^verbatim>\<open>Config.__getitem__\<close>: \<^verbatim>\<open>return self.settings[name].value\<close>; the dict lookup
  raises \<^verbatim>\<open>KeyError\<close> on a missing key.\<close>

definition Config_getitem :: "config \<Rightarrow> string \<Rightarrow> pyerror + string option" where
  "Config_getitem c name =
     (case map_of (cfg_settings c) name of
        None \<Rightarrow> Inl KeyError
      | Some s \<Rightarrow> Inr (setting_value s))"

text \<open>\<^verbatim>\<open>Config.get(self, name, default=None)\<close>: the test is \<^verbatim>\<open>name in self.settings\<close>.\<close>

definition Config_get :: "config \<Rightarrow> string \<Rightarrow> string option \<Rightarrow> string option" where
  "Config_get c name dflt =
     (if in_settings (cfg_settings c) name
      then (case map_of (cfg_settings c) name of
              Some s \<Rightarrow> setting_value s
            | None \<Rightarrow> dflt)
      else dflt)"

section \<open>Mutations of \<^verbatim>\<open>Config\<close>\<close>

text \<open>
  \<^verbatim>\<open>setting != value\<close> in \<^verbatim>\<open>Config.__setitem__\<close> compares the \<^verbatim>\<open>Setting\<close> object itself
  with the new value. \<^verbatim>\<open>class Setting\<close> defines neither \<^verbatim>\<open>__eq__\<close> nor \<^verbatim>\<open>__ne__\<close>, so
  the comparison falls back to object identity, and a \<^verbatim>\<open>Setting\<close> is never identical to
  a \<^verbatim>\<open>str\<close> or to \<^verbatim>\<open>None\<close>.
\<close>

fun Setting_ne :: "setting \<Rightarrow> string option \<Rightarrow> bool" where
  "Setting_ne setting None = True"
| "Setting_ne setting (Some s) = True"

text \<open>\<^verbatim>\<open>Config.__setitem__(self, name, value)\<close>\<close>

definition Config_setitem :: "config \<Rightarrow> string \<Rightarrow> string option \<Rightarrow> pyerror + config" where
  "Config_setitem c name v =
     (case map_of (cfg_settings c) name of
        None \<Rightarrow> Inl KeyError
      | Some setting \<Rightarrow>
          let h = (if Setting_ne setting v
                   then mark_modified (setting_configfile setting) (store c)
                   else store c)
          in Inr (c\<lparr> cfg_settings :=
                       AList.update name (setting\<lparr>setting_value := v\<rparr>) (cfg_settings c),
                     store := h \<rparr>))"

text \<open>
  Reading the attribute \<^verbatim>\<open>configfile\<close> of a macro value: neither \<^verbatim>\<open>None\<close> nor a
  \<^verbatim>\<open>str\<close> has it.
\<close>

fun getattr_configfile :: "string option \<Rightarrow> pyerror + nat" where
  "getattr_configfile None = Inl AttributeError"
| "getattr_configfile (Some s) = Inl AttributeError"

text \<open>\<^verbatim>\<open>self.configfiles[0]\<close>\<close>

definition first_configfile :: "config \<Rightarrow> pyerror + nat" where
  "first_configfile c = (case cfg_configfiles c of [] \<Rightarrow> Inl IndexError | r # _ \<Rightarrow> Inr r)"

text \<open>
  \<^verbatim>\<open>Config._get_configfile(self, name=None)\<close>:
  \<^verbatim>\<open>if name and name in self.settings: return self.get(name).configfile\<close>,
  else \<^verbatim>\<open>return self.configfiles[0]\<close>.
\<close>

definition Config_get_configfile :: "config \<Rightarrow> string option \<Rightarrow> pyerror + nat" where
  "Config_get_configfile c name =
     (case name of
        None \<Rightarrow> first_configfile c
      | Some n \<Rightarrow>
          if truthy name \<and> in_settings (cfg_settings c) n
          then getattr_configfile (Config_get c n None)
          else first_configfile c)"

text \<open>\<^verbatim>\<open>Config.filename(self, name=None)\<close>\<close>

definition Config_filename :: "config \<Rightarrow> string option \<Rightarrow> pyerror + string" where
  "Config_filename c name =
     (case Config_get_configfile c name of
        Inl e \<Rightarrow> Inl e
      | Inr r \<Rightarrow> Inr (cf_filename (store c r)))"

text \<open>\<^verbatim>\<open>Config.set(self, name, value=None)\<close>\<close>

definition Config_set :: "config \<Rightarrow> string \<Rightarrow> string option \<Rightarrow> pyerror + config" where
  "Config_set c name v =
     (case map_of (cfg_settings c) name of
        Some setting \<Rightarrow>
          let h = (if setting_value setting \<noteq> v \<or> \<not> setting_active setting
                   then mark_modified (setting_configfile setting) (store c)
                   else store c);
              setting1 = (case v of None \<Rightarrow> setting | Some _ \<Rightarrow> setting\<lparr>setting_value := v\<rparr>);
              setting2 = setting1\<lparr>setting_active := True\<rparr>
          in Inr (c\<lparr> cfg_settings := AList.update name setting2 (cfg_settings c),
                     store := h \<rparr>)
      | None \<Rightarrow>
          (case Config_get_configfile c (Some name) of
             Inl e \<Rightarrow> Inl e
           | Inr configfile \<Rightarrow>
               Inr (c\<lparr> cfg_settings :=
                            AList.update name (Setting_init configfile True name v None)
                              (cfg_settings c),
                          store := mark_modified configfile (store c) \<rparr>)))"

text \<open>\<^verbatim>\<open>Config.unset(self, name)\<close>\<close>

definition Config_unset :: "config \<Rightarrow> string \<Rightarrow> config" where
  "Config_unset c name =
     (case map_of (cfg_settings c) name of
        None \<Rightarrow> c
      | Some setting \<Rightarrow>
          let h = (if setting_active setting
                   then mark_modified (setting_configfile setting) (store c)
                   else store c)
          in c\<lparr> cfg_settings :=
                  AList.update name (setting\<lparr>setting_active := False\<rparr>) (cfg_settings c),
                store := h \<rparr>)"

text \<open>
  \<^verbatim>\<open>Config.adapt(self, adapter)\<close>: the loop over \<^verbatim>\<open>self.settings.values()\<close>. The adapter
  is a total function of \<^verbatim>\<open>(name, active, section)\<close>.
\<close>

fun adapt_loop ::
  "(string \<Rightarrow> bool \<Rightarrow> string option \<Rightarrow> bool) \<Rightarrow> (string \<times> setting) list \<Rightarrow>
   (nat \<Rightarrow> configfile) \<Rightarrow> (string \<times> setting) list \<times> (nat \<Rightarrow> configfile)" where
  "adapt_loop adapter [] h = ([], h)"
| "adapt_loop adapter ((k, setting) # rest) h =
     (let is_active = setting_active setting;
          setting' = setting\<lparr>setting_active :=
                        adapter (setting_name setting) (setting_active setting)
                          (setting_section setting)\<rparr>;
          h' = (if setting_active setting' \<noteq> is_active
                then mark_modified (setting_configfile setting') h else h);
          (rest', h'') = adapt_loop adapter rest h'
      in ((k, setting') # rest', h''))"



text \<open>
  \<^verbatim>\<open>Config.change_matching(self, regexs, enable)\<close>. The regular expression library is a
  parameter: \<open>re_compile p\<close> is \<open>None\<close> when \<^verbatim>\<open>re.compile(p)\<close> raises, and otherwise
  the predicate \<^verbatim>\<open>regex.search\<close> of the compiled pattern.
\<close>

fun change_loop ::
  "(string \<Rightarrow> bool) \<Rightarrow> bool \<Rightarrow> (string \<times> setting) list \<Rightarrow>
   (nat \<Rightarrow> configfile) \<Rightarrow> (string \<times> setting) list \<times> (nat \<Rightarrow> configfile)" where
  "change_loop search enable [] h = ([], h)"
| "change_loop search enable ((k, setting) # rest) h =
     (if search (setting_name setting)
      then (let h' = (if setting_active setting \<noteq> enable
                      then mark_modified (setting_configfile setting) h else h);
                (rest', h'') = change_loop search enable rest h'
            in ((k, setting\<lparr>setting_active := enable\<rparr>) # rest', h''))
      else (let (rest', h'') = change_loop search enable rest h
            in ((k, setting) # rest', h'')))"


section \<open>Strings and the line patterns\<close>

text \<open>
  \<open>is_space\<close> is the whitespace of \<^verbatim>\<open>str.rstrip()\<close>, \<^verbatim>\<open>str.isspace()\<close> and of \<^verbatim>\<open>\s\<close> in
  a \<^verbatim>\<open>str\<close> pattern; \<open>is_word\<close> is \<^verbatim>\<open>\w\<close>: alphanumeric characters and the underscore.
\<close>

definition is_space :: "char \<Rightarrow> bool" where
  "is_space c =
     (c \<in> set [CHR 0x09, CHR 0x0A, CHR 0x0B, CHR 0x0C, CHR 0x0D, CHR 0x1C, CHR 0x1D,
               CHR 0x1E, CHR 0x1F, CHR 0x20, CHR 0x85, CHR 0xA0])"

definition is_word :: "char \<Rightarrow> bool" where
  "is_word c =
     (let n = (of_char c :: nat) in
        (48 \<le> n \<and> n \<le> 57) \<or> (65 \<le> n \<and> n \<le> 90) \<or> n = 95 \<or> (97 \<le> n \<and> n \<le> 122) \<or>
        n = 170 \<or> n = 178 \<or> n = 179 \<or> n = 181 \<or> n = 185 \<or> n = 186 \<or>
        (188 \<le> n \<and> n \<le> 190) \<or> (192 \<le> n \<and> n \<le> 214) \<or> (216 \<le> n \<and> n \<le> 246) \<or>
        248 \<le> n)"

text \<open>\<^verbatim>\<open>s.rstrip()\<close> and \<^verbatim>\<open>s.rstrip(chars)\<close>\<close>

definition rstrip :: "string \<Rightarrow> string" where
  "rstrip s = rev (dropWhile is_space (rev s))"

definition rstrip_chars :: "string \<Rightarrow> string \<Rightarrow> string" where
  "rstrip_chars chars s = rev (dropWhile (\<lambda>c. c \<in> set chars) (rev s))"

text \<open>
  A chain \<^verbatim>\<open>a + b + c + d\<close> of string concatenations: an operand that is \<^verbatim>\<open>None\<close>
  raises \<^verbatim>\<open>TypeError\<close>.
\<close>

fun py_concat :: "string option list \<Rightarrow> pyerror + string" where
  "py_concat [] = Inr []"
| "py_concat (None # xs) = Inl TypeError"
| "py_concat (Some s # xs) =
     (case py_concat xs of Inl e \<Rightarrow> Inl e | Inr r \<Rightarrow> Inr (s @ r))"

text \<open>
  The match object of \<^verbatim>\<open>_config_line_regexp\<close>: its named groups. A group of an
  alternative that did not take part in the match is \<^verbatim>\<open>None\<close>.
\<close>

record re_match =
  g_indentation :: "string option"
  g_commented_out :: "string option"
  g_define :: "string option"
  g_name :: "string option"
  g_arguments :: "string option"
  g_separator :: "string option"
  g_value :: "string option"
  g_inclusion_guard :: "string option"
  g_section :: "string option"

definition no_groups :: re_match where
  "no_groups =
     \<lparr> g_indentation = None, g_commented_out = None, g_define = None, g_name = None,
       g_arguments = None, g_separator = None, g_value = None, g_inclusion_guard = None,
       g_section = None \<rparr>"

text \<open>\<^verbatim>\<open>.*\<close>: the longest run of characters other than the newline.\<close>

definition dot_star :: "string \<Rightarrow> string" where
  "dot_star s = takeWhile (\<lambda>c. c \<noteq> CHR 0x0A) s"

text \<open>
  \<^verbatim>\<open>(?P<arguments>(?:\((?:\w|\s|,)*\))?)\<close>: the text of the group and the rest of the
  line. The run inside the parentheses is greedy, and no shorter run can be followed by
  the closing parenthesis, which is not in the class.
\<close>

definition match_arguments :: "string \<Rightarrow> string \<times> string" where
  "match_arguments s =
     (case s of
        [] \<Rightarrow> ([], s)
      | c # rest \<Rightarrow>
          if c = CHR ''(''
          then (let inside = takeWhile (\<lambda>x. is_word x \<or> is_space x \<or> x = CHR '','') rest;
                    after = dropWhile (\<lambda>x. is_word x \<or> is_space x \<or> x = CHR '','') rest
                in (case after of
                      [] \<Rightarrow> ([], s)
                    | d # after' \<Rightarrow>
                        if d = CHR '')'' then (c # inside @ [d], after') else ([], s)))
          else ([], s))"

text \<open>
  \<^verbatim>\<open>_define_line_regexp\<close>, matched at the start of the line:
  \<^verbatim>\<open>(?P<indentation>\s*)(?P<commented_out>(//\s*)?)(?P<define>#\s*define\s+)(?P<name>\w+)\<close>
  \<^verbatim>\<open>(?P<arguments>(?:\((?:\w|\s|,)*\))?)(?P<separator>\s*)(?P<value>.*)\<close>.
  Each greedy run is followed by a character outside its class, so the first attempt of the
  backtracking matcher is the only one that can succeed.
\<close>

definition match_define :: "string \<Rightarrow> re_match option" where
  "match_define line =
     (let indentation = takeWhile is_space line;
          r1 = dropWhile is_space line;
          commented_out = (if take 2 r1 = ''//''
                           then ''//'' @ takeWhile is_space (drop 2 r1) else []);
          r2 = (if take 2 r1 = ''//'' then dropWhile is_space (drop 2 r1) else r1)
      in (case r2 of
            [] \<Rightarrow> None
          | hash # r3 \<Rightarrow>
              if hash = CHR ''#'' \<and> take 6 (dropWhile is_space r3) = ''define''
              then (let r4 = drop 6 (dropWhile is_space r3);
                        define = hash # takeWhile is_space r3 @ ''define'' @ takeWhile is_space r4;
                        r5 = dropWhile is_space r4;
                        name = takeWhile is_word r5;
                        r6 = dropWhile is_word r5;
                        (arguments, r7) = match_arguments r6;
                        separator = takeWhile is_space r7;
                        r8 = dropWhile is_space r7
                    in if takeWhile is_space r4 \<noteq> [] \<and> name \<noteq> []
                       then Some (no_groups\<lparr> g_indentation := Some indentation,
                                             g_commented_out := Some commented_out,
                                             g_define := Some define,
                                             g_name := Some name,
                                             g_arguments := Some arguments,
                                             g_separator := Some separator,
                                             g_value := Some (dot_star r8) \<rparr>)
                       else None)
              else None))"

text \<open>\<^verbatim>\<open>_ifndef_line_regexp\<close>: \<^verbatim>\<open>#ifndef (?P<inclusion_guard>\w+)\<close>\<close>

definition match_ifndef :: "string \<Rightarrow> re_match option" where
  "match_ifndef line =
     (if take 8 line = ''#ifndef '' \<and> takeWhile is_word (drop 8 line) \<noteq> []
      then Some (no_groups\<lparr> g_inclusion_guard := Some (takeWhile is_word (drop 8 line)) \<rparr>)
      else None)"

text \<open>
  \<^verbatim>\<open>_section_line_regexp\<close>: \<^verbatim>\<open>\s*/?\*+\s*[\\@]name\s+SECTION:\s*(?P<section>.*)[ */]*\<close>.
  The greedy \<^verbatim>\<open>.*\<close> takes the rest of the line and the final class matches nothing.
\<close>

definition match_section :: "string \<Rightarrow> re_match option" where
  "match_section line =
     (let r1 = dropWhile is_space line;
          r2 = (if take 1 r1 = ''/'' then drop 1 r1 else r1);
          r3 = dropWhile is_space (dropWhile (\<lambda>c. c = CHR ''*'') r2);
          r4 = drop 5 r3;
          r5 = dropWhile is_space r4;
          r6 = dropWhile is_space (drop 8 r5)
      in if takeWhile (\<lambda>c. c = CHR ''*'') r2 \<noteq> []
            \<and> (take 1 r3 = [CHR 0x5C] \<or> take 1 r3 = ''@'')
            \<and> take 4 (drop 1 r3) = ''name''
            \<and> takeWhile is_space r4 \<noteq> []
            \<and> take 8 r5 = ''SECTION:''
         then Some (no_groups\<lparr> g_section := Some (dot_star r6) \<rparr>)
         else None)"

text \<open>
  \<^verbatim>\<open>re.match(self._config_line_regexp, line)\<close>: the three patterns joined by \<^verbatim>\<open>|\<close>,
  tried in this order at the start of the line.
\<close>

definition config_line_match :: "string \<Rightarrow> re_match option" where
  "config_line_match line =
     (case match_define line of
        Some m \<Rightarrow> Some m
      | None \<Rightarrow>
          (case match_ifndef line of
             Some m \<Rightarrow> Some m
           | None \<Rightarrow> match_section line))"

section \<open>\<^verbatim>\<open>ConfigFile\<close>\<close>

text \<open>
  \<^verbatim>\<open>ConfigFile.__init__(self, default_path, name, filename=None)\<close>; \<open>lexists\<close> is
  \<^verbatim>\<open>os.path.lexists\<close>.
\<close>

definition ConfigFile_init ::
  "(string \<Rightarrow> bool) \<Rightarrow> string list \<Rightarrow> string \<Rightarrow> string option \<Rightarrow> pyerror + configfile" where
  "ConfigFile_init lexists default_path name filename =
     (case (case filename of None \<Rightarrow> find lexists default_path | Some f \<Rightarrow> Some f) of
        None \<Rightarrow> Inl FileNotFoundError
      | Some f \<Rightarrow>
          Inr \<lparr> cf_filename = f, cf_templates = [], cf_current_section = None,
                cf_inclusion_guard = None, cf_modified = False \<rparr>)"

text \<open>\<^verbatim>\<open>self.templates.append(t)\<close>\<close>

definition append_template :: "configfile \<Rightarrow> template \<Rightarrow> configfile" where
  "append_template cf t = cf\<lparr>cf_templates := cf_templates cf @ [t]\<rparr>"

text \<open>
  \<^verbatim>\<open>ConfigFile._parse_line(self, line)\<close> returns the updated object and the tuple
  \<^verbatim>\<open>(active, name, value, self.current_section)\<close> or \<^verbatim>\<open>None\<close>. Every raise comes before
  the first assignment of the call. In the last branch the concatenation has succeeded,
  so \<^verbatim>\<open>name\<close> and the indentation are strings: the \<open>_\<close> case is never reached.
\<close>

type_synonym event = "bool \<times> string \<times> string option \<times> string option"

definition ConfigFile_parse_line ::
  "configfile \<Rightarrow> string \<Rightarrow> pyerror + (configfile \<times> event option)" where
  "ConfigFile_parse_line cf line0 =
     (let line = rstrip_chars [CHR 0x0D, CHR 0x0A] line0 in
      case config_line_match line of
        None \<Rightarrow> Inr (append_template cf (Verbatim line), None)
      | Some m \<Rightarrow>
          if truthy (g_section m)
          then Inr (append_template (cf\<lparr>cf_current_section := g_section m\<rparr>) (Verbatim line),
                    None)
          else if truthy (g_inclusion_guard m) \<and> cf_inclusion_guard cf = None
          then Inr (append_template (cf\<lparr>cf_inclusion_guard := g_inclusion_guard m\<rparr>)
                      (Verbatim line), None)
          else (let active = \<not> truthy (g_commented_out m);
                    name = g_name m;
                    v = g_value m
                in if name = cf_inclusion_guard cf \<and> v = Some []
                   then Inr (append_template cf (Verbatim line), None)
                   else (case py_concat [g_define m, name, g_arguments m, g_separator m] of
                           Inl e \<Rightarrow> Inl e
                         | Inr middle \<Rightarrow>
                             (case (name, g_indentation m) of
                                (Some n, Some indentation) \<Rightarrow>
                                  Inr (append_template cf (Param n indentation middle),
                                       Some (active, n, v, cf_current_section cf))
                              | _ \<Rightarrow> Inl TypeError))))"

text \<open>
  Reading a text file line by line: \<^verbatim>\<open>open(..., 'r')\<close> translates the line endings
  \<^verbatim>\<open>\r\n\<close> and \<^verbatim>\<open>\r\<close> to \<^verbatim>\<open>\n\<close>, and every line keeps its \<^verbatim>\<open>\n\<close>.
\<close>

fun universal_newlines :: "string \<Rightarrow> string" where
  "universal_newlines [] = []"
| "universal_newlines [c] = (if c = CHR 0x0D then [CHR 0x0A] else [c])"
| "universal_newlines (c # d # cs) =
     (if c = CHR 0x0D
      then (if d = CHR 0x0A then CHR 0x0A # universal_newlines cs
            else CHR 0x0A # universal_newlines (d # cs))
      else c # universal_newlines (d # cs))"

fun split_lines :: "string \<Rightarrow> string \<Rightarrow> string list" where
  "split_lines acc [] = (if acc = [] then [] else [acc])"
| "split_lines acc (c # cs) =
     (if c = CHR 0x0A then (acc @ [c]) # split_lines [] cs else split_lines (acc @ [c]) cs)"

definition file_lines :: "string \<Rightarrow> string list" where
  "file_lines content = split_lines [] (universal_newlines content)"

text \<open>
  The world outside the process: the text of each existing file, which paths can be opened
  for writing, and the log of the paths that were opened for writing.
\<close>

record world =
  fs :: "string \<Rightarrow> string option"
  writable :: "string \<Rightarrow> bool"
  opened :: "string list"

text \<open>
  \<^verbatim>\<open>ConfigFile.parse_file(self)\<close>, with the generator run to its end: the object as the
  call leaves it, the tuples yielded, and the exception if one was raised.
\<close>

fun parse_lines ::
  "configfile \<Rightarrow> string list \<Rightarrow> event list \<Rightarrow> configfile \<times> event list \<times> pyerror option" where
  "parse_lines cf [] evs = (cf, evs, None)"
| "parse_lines cf (line # rest) evs =
     (case ConfigFile_parse_line cf line of
        Inl e \<Rightarrow> (cf, evs, Some e)
      | Inr (cf', setting) \<Rightarrow>
          parse_lines cf' rest (case setting of None \<Rightarrow> evs | Some ev \<Rightarrow> evs @ [ev]))"

definition ConfigFile_parse_file ::
  "configfile \<Rightarrow> world \<Rightarrow> configfile \<times> event list \<times> pyerror option" where
  "ConfigFile_parse_file cf w =
     (case fs w (cf_filename cf) of
        None \<Rightarrow> (cf, [], Some FileNotFoundError)
      | Some content \<Rightarrow>
          (case parse_lines cf (file_lines content) [] of
             (cf', evs, None) \<Rightarrow> (cf'\<lparr>cf_current_section := None\<rparr>, evs, None)
           | (cf', evs, Some e) \<Rightarrow> (cf', evs, Some e)))"

text \<open>\<^verbatim>\<open>ConfigFile._format_template(self, setting, indent, middle)\<close>\<close>

definition ConfigFile_format_template ::
  "setting \<Rightarrow> string \<Rightarrow> string \<Rightarrow> pyerror + string" where
  "ConfigFile_format_template setting indent middle =
     (let v = (case setting_value setting of None \<Rightarrow> [] | Some s \<Rightarrow> s);
          middle' = (if v \<noteq> []
                     then (if middle = [] then Inl IndexError
                           else if last middle \<notin> set [CHR 0x09, CHR 0x20]
                                then Inr (middle @ '' '') else Inr middle)
                     else Inr (rstrip middle))
      in case middle' of
           Inl e \<Rightarrow> Inl e
         | Inr m \<Rightarrow>
             Inr (rstrip (concat [indent, if setting_active setting then [] else ''//'', m, v])))"

text \<open>
  \<^verbatim>\<open>ConfigFile.write_to_stream(self, settings, output)\<close>: the text written so far and the
  exception, if any, that stopped the loop.
\<close>

fun write_templates ::
  "template list \<Rightarrow> (string \<times> setting) list \<Rightarrow> string \<Rightarrow> string \<times> pyerror option" where
  "write_templates [] settings output = (output, None)"
| "write_templates (Verbatim line # ts) settings output =
     write_templates ts settings (output @ line @ [CHR 0x0A])"
| "write_templates (Param name indent middle # ts) settings output =
     (case map_of settings name of
        None \<Rightarrow> (output, Some KeyError)
      | Some setting \<Rightarrow>
          (case ConfigFile_format_template setting indent middle of
             Inl e \<Rightarrow> (output, Some e)
           | Inr line \<Rightarrow> write_templates ts settings (output @ line @ [CHR 0x0A])))"

definition ConfigFile_write_to_stream ::
  "configfile \<Rightarrow> (string \<times> setting) list \<Rightarrow> string \<Rightarrow> string \<times> pyerror option" where
  "ConfigFile_write_to_stream cf settings output =
     write_templates (cf_templates cf) settings output"

text \<open>
  \<^verbatim>\<open>ConfigFile.write(self, settings, filename=None)\<close>. Opening a file for writing is
  logged and empties the file; what the loop wrote before an exception stays in it.
\<close>

definition ConfigFile_write ::
  "configfile \<Rightarrow> (string \<times> setting) list \<Rightarrow> string option \<Rightarrow> world \<Rightarrow>
   pyerror option \<times> world" where
  "ConfigFile_write cf settings filename0 w =
     (let filename = (case filename0 of None \<Rightarrow> cf_filename cf | Some f \<Rightarrow> f) in
      if \<not> cf_modified cf \<and> filename = cf_filename cf then (None, w)
      else (let w1 = w\<lparr>opened := opened w @ [filename]\<rparr> in
            if \<not> writable w filename then (Some OSError, w1)
            else (let (output, err) = ConfigFile_write_to_stream cf settings []
                  in (err, w1\<lparr>fs := (fs w1)(filename := Some output)\<rparr>))))"

text \<open>\<^verbatim>\<open>Config.write(self, filename=None)\<close>: the loop stops at the first exception.\<close>

fun write_all ::
  "(nat \<Rightarrow> configfile) \<Rightarrow> (string \<times> setting) list \<Rightarrow> string option \<Rightarrow> nat list \<Rightarrow> world \<Rightarrow>
   pyerror option \<times> world" where
  "write_all h settings filename [] w = (None, w)"
| "write_all h settings filename (r # rs) w =
     (case ConfigFile_write (h r) settings filename w of
        (Some e, w') \<Rightarrow> (Some e, w')
      | (None, w') \<Rightarrow> write_all h settings filename rs w')"

definition Config_write :: "config \<Rightarrow> string option \<Rightarrow> world \<Rightarrow> pyerror option \<times> world" where
  "Config_write c filename w =
     write_all (store c) (cfg_settings c) filename (cfg_configfiles c) w"

text \<open>The names that the parameterised templates of a file refer to.\<close>

fun param_names :: "template list \<Rightarrow> string list" where
  "param_names [] = []"
| "param_names (Verbatim line # ts) = param_names ts"
| "param_names (Param name indent middle # ts) = name # param_names ts"

section \<open>Sequences of operations\<close>





section \<open>Example configurations\<close>

text \<open>One file \<^verbatim>\<open>config.h\<close> at address 0, not modified, holding the given templates.\<close>

definition example_file :: "template list \<Rightarrow> configfile" where
  "example_file ts =
     \<lparr> cf_filename = ''config.h'', cf_templates = ts, cf_current_section = None,
       cf_inclusion_guard = None, cf_modified = False \<rparr>"

text \<open>A configuration with the single known symbol \<^verbatim>\<open>BAZ\<close> of value \<^verbatim>\<open>1\<close>.\<close>

definition example_baz :: "bool \<Rightarrow> config" where
  "example_baz active =
     \<lparr> cfg_settings = [(''BAZ'', Setting_init 0 active ''BAZ'' (Some ''1'') None)],
       cfg_configfiles = [0],
       store = (\<lambda>_. example_file [Param ''BAZ'' [] ''#define BAZ '']) \<rparr>"

text \<open>
  A configuration with two known symbols in one file: \<^verbatim>\<open>MBEDTLS_A\<close> without a value and
  \<^verbatim>\<open>OTHER_C\<close> of value \<^verbatim>\<open>2\<close> in the section \<^verbatim>\<open>Group X\<close>.
\<close>

definition example_two :: "bool \<Rightarrow> config" where
  "example_two active =
     \<lparr> cfg_settings =
         [(''MBEDTLS_A'', Setting_init 0 active ''MBEDTLS_A'' (Some []) None),
          (''OTHER_C'', Setting_init 0 True ''OTHER_C'' (Some ''2'') (Some ''Group X''))],
       cfg_configfiles = [0],
       store = (\<lambda>_. example_file
                  [Param ''MBEDTLS_A'' [] ''#define MBEDTLS_A'',
                   Verbatim ''/* end */'',
                   Param ''OTHER_C'' ''  '' ''#define OTHER_C '']) \<rparr>"

text \<open>A world whose only file is \<^verbatim>\<open>config.h\<close>; every path can be opened for writing.\<close>

definition example_world :: "string \<Rightarrow> world" where
  "example_world content =
     \<lparr> fs = (\<lambda>p. if p = ''config.h'' then Some content else None),
       writable = (\<lambda>_. True),
       opened = [] \<rparr>"

text \<open>
  The configuration of one parsed line: the file at address 0 as \<^verbatim>\<open>_parse_line\<close> left
  it, and the \<^verbatim>\<open>Setting\<close> constructed from the tuple that the line yielded.
\<close>

definition example_parsed :: "configfile \<Rightarrow> event \<Rightarrow> config" where
  "example_parsed cf ev =
     (case ev of (active, name, v, section) \<Rightarrow>
        \<lparr> cfg_settings = [(name, Setting_init 0 active name v section)],
          cfg_configfiles = [0],
          store = (\<lambda>_. cf) \<rparr>)"

text \<open>The text of a header with two settings, and of one with two \<^verbatim>\<open>#ifndef\<close> lines.\<close>

definition example_header :: string where
  "example_header = ''// #define FOO'' @ [CHR 0x0A] @ ''#define BAR'' @ [CHR 0x0A]"

definition example_guards :: string where
  "example_guards = ''#ifndef A_H'' @ [CHR 0x0A] @ ''#ifndef B_H'' @ [CHR 0x0A]"

section \<open>Strict and lenient read access\<close>

text \<open>
  Claim C1 at a failing input: \<^verbatim>\<open>BAZ\<close> is known and inactive, \<^verbatim>\<open>'BAZ' in config\<close> is
  false and \<^verbatim>\<open>known('BAZ')\<close> is true, and \<^verbatim>\<open>config['BAZ']\<close> returns the stored value
  \<^verbatim>\<open>'1'\<close> where the class documentation promises \<^verbatim>\<open>KeyError\<close>.
\<close>

theorem getitem_inactive_returns_value:
  "Config_known (example_baz False) ''BAZ''
   \<and> \<not> Config_contains (example_baz False) ''BAZ''
   \<and> Config_getitem (example_baz False) ''BAZ'' = Inr (Some ''1'')
   \<and> Config_getitem (example_baz False) ''BAZ'' \<noteq> Inl KeyError"
  by (simp add: Config_known_def Config_contains_def Config_getitem_def in_settings_def
        example_baz_def Setting_init_def)

text \<open>
  The same for every known inactive symbol: the membership test is false, \<^verbatim>\<open>known\<close> is
  true, and \<^verbatim>\<open>config[name]\<close> returns the stored value. \<^verbatim>\<open>KeyError\<close> is raised exactly for
  the names that are not known.
\<close>

lemma getitem_known_inactive:
  "(map_of (cfg_settings c) name = Some s \<and> \<not> setting_active s \<longrightarrow>
      \<not> Config_contains c name \<and> Config_known c name \<and>
      Config_getitem c name = Inr (setting_value s))
   \<and> (Config_getitem c name = Inl KeyError \<longleftrightarrow> \<not> Config_known c name)"
  by (auto simp: Config_contains_def Config_known_def Config_getitem_def in_settings_def
           split: option.splits)

text \<open>
  Claim C5 at a failing input: \<^verbatim>\<open>BAZ\<close> is known but inactive, and
  \<^verbatim>\<open>config.get('BAZ', 'dflt')\<close> returns the stored \<^verbatim>\<open>'1'\<close>, not the default.
\<close>

theorem get_inactive_returns_value:
  "\<not> Config_contains (example_baz False) ''BAZ''
   \<and> Config_get (example_baz False) ''BAZ'' (Some ''dflt'') = Some ''1''
   \<and> Config_get (example_baz False) ''BAZ'' (Some ''dflt'') \<noteq> Some ''dflt''"
  by (simp add: Config_contains_def Config_get_def in_settings_def
        example_baz_def Setting_init_def)

section \<open>Mutations and the modified flag\<close>

text \<open>
  Claim C2 at a failing input: \<^verbatim>\<open>BAZ\<close> is active with value \<^verbatim>\<open>'1'\<close> in a file that is
  not modified. \<^verbatim>\<open>config['BAZ'] = '1'\<close> leaves every setting as it was and marks the file
  modified, and so does \<^verbatim>\<open>config.set('BAZ')\<close>.
\<close>

theorem noop_mutations_mark_modified:
  "\<not> cf_modified (store (example_baz True) 0)
   \<and> Config_getitem (example_baz True) ''BAZ'' = Inr (Some ''1'')
   \<and> (case Config_setitem (example_baz True) ''BAZ'' (Some ''1'') of
         Inl e \<Rightarrow> False
       | Inr c' \<Rightarrow> cf_modified (store c' 0) \<and> cfg_settings c' = cfg_settings (example_baz True))
   \<and> Config_contains (example_baz True) ''BAZ''
   \<and> (case Config_set (example_baz True) ''BAZ'' None of
         Inl e \<Rightarrow> False
       | Inr c' \<Rightarrow> cf_modified (store c' 0) \<and> cfg_settings c' = cfg_settings (example_baz True))"
  by (simp add: Config_setitem_def Config_set_def Config_getitem_def Config_contains_def
        example_baz_def example_file_def Setting_init_def mark_modified_def)

text \<open>The states that the two calls leave: the configuration with the file marked.\<close>

theorem noop_mutations_mark_modified_witness:
  "Config_setitem (example_baz True) ''BAZ'' (Some ''1'')
     = Inr ((example_baz True)\<lparr>store := mark_modified 0 (store (example_baz True))\<rparr>)
   \<and> Config_set (example_baz True) ''BAZ'' None
     = Inr ((example_baz True)\<lparr>store := mark_modified 0 (store (example_baz True))\<rparr>)
   \<and> cf_modified (mark_modified 0 (store (example_baz True)) 0)"
  using noop_mutations_mark_modified
  by (simp add: Config_setitem_def Config_set_def example_baz_def Setting_init_def
        mark_modified_def)

text \<open>\<^verbatim>\<open>config[name] = value\<close> marks the owning file whatever the old and new values are.\<close>

lemma setitem_always_marks:
  "Config_setitem c name v = Inr c' \<Longrightarrow> map_of (cfg_settings c) name = Some s \<Longrightarrow>
   cf_modified (store c' (setting_configfile s))"
  by (cases v) (auto simp: Config_setitem_def mark_modified_def)

text \<open>
  \<^verbatim>\<open>config.set(name, value)\<close> on an active symbol whose value is already \<^verbatim>\<open>value\<close> changes
  nothing.
\<close>

lemma set_same_value_noop:
  "map_of (cfg_settings c) name = Some s \<Longrightarrow> setting_active s \<Longrightarrow> setting_value s = Some v \<Longrightarrow>
   Config_set c name (Some v) = Inr c"
  by (simp add: Config_set_def AList.update_triv)

section \<open>The file of a symbol\<close>

text \<open>
  Claim C9 at a failing input: \<^verbatim>\<open>BAZ\<close> is known and owned by the file \<^verbatim>\<open>config.h\<close>, and
  \<^verbatim>\<open>config.filename('BAZ')\<close> raises \<^verbatim>\<open>AttributeError\<close>.
\<close>

theorem filename_known_raises:
  "Config_known (example_baz True) ''BAZ''
   \<and> cf_filename (store (example_baz True)
        (setting_configfile (Setting_init 0 True ''BAZ'' (Some ''1'') None))) = ''config.h''
   \<and> Config_filename (example_baz True) (Some ''BAZ'') = Inl AttributeError"
  by (simp add: Config_filename_def Config_get_configfile_def Config_get_def Config_known_def
        in_settings_def example_baz_def example_file_def Setting_init_def)

text \<open>The same holds for every known name that is not the empty string.\<close>

lemma filename_known_always_raises:
  "in_settings (cfg_settings c) n \<Longrightarrow> n \<noteq> [] \<Longrightarrow>
   Config_filename c (Some n) = Inl AttributeError"
  by (cases "Config_get c n None") (simp_all add: Config_filename_def Config_get_configfile_def)

text \<open>
  For an omitted or unknown name the first file is returned when there is one, and
  \<^verbatim>\<open>IndexError\<close> is raised when the configuration owns no file.
\<close>

lemma filename_unknown_first_file:
  "name = None \<or> name = Some [] \<or> (\<exists>n. name = Some n \<and> \<not> in_settings (cfg_settings c) n) \<Longrightarrow>
   Config_filename c name =
     (case cfg_configfiles c of [] \<Rightarrow> Inl IndexError | r # _ \<Rightarrow> Inr (cf_filename (store c r)))"
  by (auto simp: Config_filename_def Config_get_configfile_def first_configfile_def
           split: list.splits)

section \<open>The frame of \<^verbatim>\<open>unset\<close>\<close>

text \<open>
  Claim C10: for a known name, \<^verbatim>\<open>unset(name)\<close> replaces the setting by itself with
  \<^verbatim>\<open>active\<close> false (name, value, section and owning file as before), leaves the setting
  of every other name, the known names and their order as they were, and changes the
  template list of no file.
\<close>

theorem unset_frame:
  "map_of (cfg_settings c) name = Some s \<Longrightarrow>
   map_of (cfg_settings (Config_unset c name)) name = Some (s\<lparr>setting_active := False\<rparr>)
   \<and> (\<forall>n. n \<noteq> name \<longrightarrow>
          map_of (cfg_settings (Config_unset c name)) n = map_of (cfg_settings c) n)
   \<and> map fst (cfg_settings (Config_unset c name)) = map fst (cfg_settings c)
   \<and> (\<forall>n. Config_known (Config_unset c name) n = Config_known c n)
   \<and> cfg_configfiles (Config_unset c name) = cfg_configfiles c
   \<and> (\<forall>r. cf_templates (store (Config_unset c name) r) = cf_templates (store c r))"
  by (auto simp: Config_unset_def Let_def AList.update_conv' AList.update_keys mark_modified_def
        Config_known_def in_settings_def
      dest: map_of_SomeD intro: rev_image_eqI)

theorem unset_frame_witness:
  "map_of (cfg_settings (example_two True)) ''MBEDTLS_A''
     = Some (Setting_init 0 True ''MBEDTLS_A'' (Some []) None)
   \<and> map_of (cfg_settings (Config_unset (example_two True) ''MBEDTLS_A'')) ''MBEDTLS_A''
     = Some (Setting_init 0 False ''MBEDTLS_A'' (Some []) None)
   \<and> ''OTHER_C'' \<noteq> ''MBEDTLS_A''
   \<and> map_of (cfg_settings (Config_unset (example_two True) ''MBEDTLS_A'')) ''OTHER_C''
     = Some (Setting_init 0 True ''OTHER_C'' (Some ''2'') (Some ''Group X''))
   \<and> map fst (cfg_settings (Config_unset (example_two True) ''MBEDTLS_A''))
     = [''MBEDTLS_A'', ''OTHER_C'']
   \<and> cf_templates (store (Config_unset (example_two True) ''MBEDTLS_A'') 0)
     = cf_templates (store (example_two True) 0)"
  using unset_frame [of "example_two True" "''MBEDTLS_A''"
          "Setting_init 0 True ''MBEDTLS_A'' (Some []) None"]
  by (simp add: example_two_def Setting_init_def)

section \<open>Parsing lines\<close>

lemmas line_defs = ConfigFile_parse_line_def config_line_match_def match_define_def
  match_ifndef_def match_section_def rstrip_chars_def is_space_def is_word_def
  match_arguments_def dot_star_def no_groups_def append_template_def

lemma parse_line_keeps:
  "ConfigFile_parse_line cf line = Inr (cf', ev) \<Longrightarrow>
   cf_modified cf' = cf_modified cf \<and> cf_filename cf' = cf_filename cf"
  by (auto simp: ConfigFile_parse_line_def Let_def append_template_def
           split: option.splits if_splits sum.splits)

lemma parse_lines_keeps:
  "parse_lines cf ls evs = (cf', evs', err) \<Longrightarrow>
   cf_modified cf' = cf_modified cf \<and> cf_filename cf' = cf_filename cf"
proof (induction ls arbitrary: cf evs)
  case Nil
  then show ?case by simp
next
  case (Cons l ls)
  show ?case
  proof (cases "ConfigFile_parse_line cf l")
    case (Inl e)
    with Cons.prems show ?thesis by simp
  next
    case (Inr p)
    obtain cf1 ev where p: "p = (cf1, ev)" by (cases p)
    from Cons.prems Inr p
    have "parse_lines cf1 ls (case ev of None \<Rightarrow> evs | Some x \<Rightarrow> evs @ [x]) = (cf', evs', err)"
      by simp
    from Cons.IH [OF this] parse_line_keeps [OF Inr [unfolded p]]
    show ?thesis by simp
  qed
qed

lemma parse_file_keeps:
  "ConfigFile_parse_file cf w = (cf', evs, err) \<Longrightarrow>
   cf_modified cf' = cf_modified cf \<and> cf_filename cf' = cf_filename cf"
  by (auto simp: ConfigFile_parse_file_def split: option.splits prod.splits
           dest: parse_lines_keeps)

lemma init_not_modified:
  "ConfigFile_init lexists default_path name filename = Inr cf \<Longrightarrow> \<not> cf_modified cf"
  by (auto simp: ConfigFile_init_def split: option.splits)

lemma parse_example_header:
  "ConfigFile_parse_file (example_file []) (example_world example_header) =
     (example_file [Param ''FOO'' [] ''#define FOO'', Param ''BAR'' [] ''#define BAR''],
      [(False, ''FOO'', Some [], None), (True, ''BAR'', Some [], None)], None)"
  by (simp add: ConfigFile_parse_file_def example_world_def example_header_def file_lines_def
        line_defs example_file_def)

text \<open>A line that starts with \<^verbatim>\<open>#ifndef \<close> is not matched by the define pattern.\<close>

lemma ifndef_not_define: "take 8 l = ''#ifndef '' \<Longrightarrow> match_define l = None"
proof -
  assume "take 8 l = ''#ifndef ''"
  then obtain r where l: "l = ''#ifndef '' @ r"
    by (metis append_take_drop_id)
  show ?thesis unfolding l by (simp add: match_define_def is_space_def)
qed

text \<open>
  Once a guard is captured, every line of the shape \<^verbatim>\<open>#ifndef SYMBOL\<close> raises
  \<^verbatim>\<open>TypeError\<close>: the groups \<^verbatim>\<open>define\<close> and \<^verbatim>\<open>name\<close> are \<^verbatim>\<open>None\<close> and are concatenated.
\<close>

lemma later_ifndef_raises:
  assumes "match_ifndef (rstrip_chars [CHR 0x0D, CHR 0x0A] line) \<noteq> None"
    and "cf_inclusion_guard cf \<noteq> None"
  shows "ConfigFile_parse_line cf line = Inl TypeError"
proof -
  let ?l = "rstrip_chars [CHR 0x0D, CHR 0x0A] line"
  from assms(1) have t: "take 8 ?l = ''#ifndef ''"
    by (auto simp: match_ifndef_def split: if_splits)
  have d: "match_define ?l = None" using t by (rule ifndef_not_define)
  from assms(1) t
  have m: "config_line_match ?l =
             Some (no_groups\<lparr> g_inclusion_guard := Some (takeWhile is_word (drop 8 ?l)) \<rparr>)"
    by (auto simp: config_line_match_def d match_ifndef_def split: if_splits)
  from assms(2) show ?thesis
    by (auto simp: ConfigFile_parse_line_def Let_def m no_groups_def)
qed

text \<open>
  The same branch is reached by a section marker without a title, whose group
  \<^verbatim>\<open>section\<close> is the empty string.
\<close>

lemma section_without_title_raises:
  "ConfigFile_parse_line (example_file []) ''/** @name SECTION: '' = Inl TypeError"
  by (simp add: line_defs example_file_def)

text \<open>
  Claim C7 at a failing input, a file of the two lines \<^verbatim>\<open>#ifndef A_H\<close> and
  \<^verbatim>\<open>#ifndef B_H\<close>: the first line is captured as the guard and kept as a verbatim
  template; the second one matches the guard pattern, is not captured, and raises
  \<^verbatim>\<open>TypeError\<close> in the define branch: no template is appended for it and no tuple is
  yielded.
\<close>

theorem second_ifndef_raises:
  "ConfigFile_parse_line (example_file []) ''#ifndef A_H''
     = Inr ((example_file [Verbatim ''#ifndef A_H''])\<lparr>cf_inclusion_guard := Some ''A_H''\<rparr>, None)
   \<and> config_line_match ''#ifndef B_H'' = Some (no_groups\<lparr>g_inclusion_guard := Some ''B_H''\<rparr>)
   \<and> ConfigFile_parse_line
        ((example_file [Verbatim ''#ifndef A_H''])\<lparr>cf_inclusion_guard := Some ''A_H''\<rparr>)
        ''#ifndef B_H'' = Inl TypeError
   \<and> ConfigFile_parse_file (example_file []) (example_world example_guards)
     = ((example_file [Verbatim ''#ifndef A_H''])\<lparr>cf_inclusion_guard := Some ''A_H''\<rparr>,
        [], Some TypeError)"
  by (simp add: ConfigFile_parse_file_def example_world_def example_guards_def file_lines_def
        line_defs example_file_def)

section \<open>Writing\<close>

text \<open>\<^verbatim>\<open>Config.write\<close> performs no input or output when no owned file is modified.\<close>

lemma write_all_unmodified:
  "\<forall>r \<in> set rs. \<not> cf_modified (h r) \<Longrightarrow> write_all h settings None rs w = (None, w)"
  by (induction rs) (simp_all add: ConfigFile_write_def)

text \<open>
  Claim C3: \<^verbatim>\<open>ConfigFile.write\<close> on a file that is not modified, with no target or with
  the file's own path as target, returns without an exception and leaves the world as it
  was (no file opened, no content changed); the call changes no object. In particular this
  holds for the object that \<^verbatim>\<open>__init__\<close> built and \<^verbatim>\<open>parse_file\<close> filled, whatever the
  file contains, and for \<^verbatim>\<open>Config.write\<close> when none of the owned files is modified.
\<close>

theorem write_unmodified_no_io:
  "(\<not> cf_modified cf \<and> (filename = None \<or> filename = Some (cf_filename cf)) \<longrightarrow>
      ConfigFile_write cf settings filename w = (None, w))
   \<and> (ConfigFile_init lexists default_path name filename0 = Inr cf0 \<and>
       ConfigFile_parse_file cf0 w = (cf1, evs, err) \<longrightarrow>
      ConfigFile_write cf1 settings None w = (None, w))
   \<and> ((\<forall>r \<in> set (cfg_configfiles c). \<not> cf_modified (store c r)) \<longrightarrow>
      Config_write c None w = (None, w))"
  by (auto simp: ConfigFile_write_def Config_write_def write_all_unmodified
           dest!: parse_file_keeps init_not_modified)

theorem write_unmodified_no_io_witness:
  "\<not> cf_modified (example_file []) \<and> Some ''config.h'' = Some (cf_filename (example_file []))
   \<and> ConfigFile_write (example_file []) [] (Some ''config.h'') (example_world example_header)
       = (None, example_world example_header)
   \<and> ConfigFile_init (\<lambda>p. True) [] ''Mbed TLS'' (Some ''config.h'') = Inr (example_file [])
   \<and> ConfigFile_parse_file (example_file []) (example_world example_header) =
       (example_file [Param ''FOO'' [] ''#define FOO'', Param ''BAR'' [] ''#define BAR''],
        [(False, ''FOO'', Some [], None), (True, ''BAR'', Some [], None)], None)
   \<and> ConfigFile_write
        (example_file [Param ''FOO'' [] ''#define FOO'', Param ''BAR'' [] ''#define BAR''])
        [] None (example_world example_header) = (None, example_world example_header)
   \<and> cfg_configfiles (example_two True) = [0]
   \<and> \<not> cf_modified (store (example_two True) 0)
   \<and> Config_write (example_two True) None (example_world example_header)
       = (None, example_world example_header)"
  using write_unmodified_no_io [of "example_file []" "Some ''config.h''" "[]"
          "example_world example_header" "\<lambda>p. True" "[]" "''Mbed TLS''" "Some ''config.h''"
          "example_file []"
          "example_file [Param ''FOO'' [] ''#define FOO'', Param ''BAR'' [] ''#define BAR'']"
          "[(False, ''FOO'', Some [], None), (True, ''BAR'', Some [], None)]" None
          "example_two True"]
    parse_example_header
  by (simp add: ConfigFile_init_def example_file_def example_two_def)

section \<open>Rendering a template\<close>

lemma rstrip_trimmed: "rstrip s = [] \<or> \<not> is_space (last (rstrip s))"
proof (cases "dropWhile is_space (rev s) = []")
  case True
  then show ?thesis by (simp add: rstrip_def)
next
  case False
  then have "\<not> is_space (hd (dropWhile is_space (rev s)))" by (rule hd_dropWhile)
  with False show ?thesis by (simp add: rstrip_def last_rev)
qed

lemma format_insert_space:
  "setting_value s = Some v \<Longrightarrow> v \<noteq> [] \<Longrightarrow> middle \<noteq> [] \<Longrightarrow> \<not> is_space (last middle) \<Longrightarrow>
   ConfigFile_format_template s indent middle =
     Inr (rstrip (indent @ (if setting_active s then [] else ''//'') @ middle @ '' '' @ v))"
  by (auto simp: ConfigFile_format_template_def is_space_def)

lemma format_strip_prefix:
  "setting_value s = None \<or> setting_value s = Some [] \<Longrightarrow>
   ConfigFile_format_template s indent middle =
     Inr (rstrip (indent @ (if setting_active s then [] else ''//'') @ rstrip middle))"
  by (auto simp: ConfigFile_format_template_def)

lemma format_trimmed:
  "ConfigFile_format_template s indent middle = Inr line \<Longrightarrow>
   line = [] \<or> \<not> is_space (last line)"
  using rstrip_trimmed
  by (auto simp: ConfigFile_format_template_def Let_def split: if_splits sum.splits)

text \<open>A prefix that ends in a tab or a space is kept as it is before a value.\<close>

lemma format_keep_separator:
  "setting_value s = Some v \<Longrightarrow> v \<noteq> [] \<Longrightarrow> middle \<noteq> [] \<Longrightarrow>
   last middle = CHR 0x09 \<or> last middle = CHR 0x20 \<Longrightarrow>
   ConfigFile_format_template s indent middle =
     Inr (rstrip (indent @ (if setting_active s then [] else ''//'') @ middle @ v))"
  by (auto simp: ConfigFile_format_template_def)

text \<open>A value needs a prefix: \<^verbatim>\<open>middle[-1]\<close> raises on the empty string.\<close>

lemma format_empty_prefix:
  "setting_value s = Some v \<Longrightarrow> v \<noteq> [] \<Longrightarrow>
   ConfigFile_format_template s indent [] = Inl IndexError"
  by (simp add: ConfigFile_format_template_def)

lemma toggle_example:
  "(case ConfigFile_parse_line (example_file []) ''// #define FOO'' of
      Inr (cf, Some ev) \<Rightarrow>
        (case Config_set (example_parsed cf ev) ''FOO'' None of
           Inr c' \<Rightarrow>
             ConfigFile_write_to_stream (store c' 0) (cfg_settings c') []
               = (''#define FOO'' @ [CHR 0x0A], None)
         | Inl e \<Rightarrow> False)
    | _ \<Rightarrow> False)"
  by (simp add: line_defs example_file_def example_parsed_def Config_set_def Setting_init_def
      mark_modified_def ConfigFile_write_to_stream_def ConfigFile_format_template_def rstrip_def)

lemma value_example:
  "(case ConfigFile_parse_line (example_file []) ''#define BAR'' of
      Inr (cf, Some ev) \<Rightarrow>
        (case Config_setitem (example_parsed cf ev) ''BAR'' (Some ''5'') of
           Inr c' \<Rightarrow>
             ConfigFile_write_to_stream (store c' 0) (cfg_settings c') []
               = (''#define BAR 5'' @ [CHR 0x0A], None)
         | Inl e \<Rightarrow> False)
    | _ \<Rightarrow> False)"
  by (simp add: line_defs example_file_def example_parsed_def Config_setitem_def Setting_init_def
      mark_modified_def ConfigFile_write_to_stream_def ConfigFile_format_template_def rstrip_def)

text \<open>The text of a value: \<^verbatim>\<open>None\<close> is rendered as the empty string.\<close>

lemma format_shape:
  "ConfigFile_format_template s indent middle = Inr line \<Longrightarrow>
   \<exists>m \<in> {middle, middle @ '' '', rstrip middle}.
     line = rstrip (indent @ (if setting_active s then [] else ''//'') @ m
                    @ (case setting_value s of None \<Rightarrow> [] | Some x \<Rightarrow> x))"
  by (auto simp: ConfigFile_format_template_def Let_def split: if_splits option.splits)

lemma separator_example:
  "(case ConfigFile_parse_line (example_file []) ''#define BAZ 1'' of
      Inr (cf, Some ev) \<Rightarrow>
        (case Config_unset (example_parsed cf ev) ''BAZ'' of c' \<Rightarrow>
           ConfigFile_write_to_stream (store c' 0) (cfg_settings c') []
             = (''//#define BAZ 1'' @ [CHR 0x0A], None))
    | _ \<Rightarrow> False)"
  by (simp add: line_defs example_file_def example_parsed_def Config_unset_def Setting_init_def
      mark_modified_def ConfigFile_write_to_stream_def ConfigFile_format_template_def rstrip_def)

text \<open>
  Claim C6: \<^verbatim>\<open>_format_template\<close> renders a setting with a non-empty value and a prefix
  that does not end in whitespace as indentation, \<^verbatim>\<open>//\<close> if the setting is inactive, the
  prefix, one space and the value; with a prefix that ends in a tab or a space the prefix
  is kept and no space is inserted; a setting with no value is rendered as indentation,
  \<^verbatim>\<open>//\<close> if inactive, and the prefix without its trailing whitespace. In every case the
  line is the indentation, then \<^verbatim>\<open>//\<close> exactly when the setting is inactive, then the
  prefix (as it is, with one space added, or stripped), then the value, and the whole is
  stripped of trailing whitespace: the rendered line never ends in whitespace. The line
  \<^verbatim>\<open>// #define FOO\<close>, parsed and followed by \<^verbatim>\<open>set('FOO')\<close>, is written as
  \<^verbatim>\<open>#define FOO\<close>; the line \<^verbatim>\<open>#define BAR\<close>, parsed and followed by
  \<^verbatim>\<open>config['BAR'] = '5'\<close>, is written as \<^verbatim>\<open>#define BAR 5\<close>; the line
  \<^verbatim>\<open>#define BAZ 1\<close>, parsed and followed by \<^verbatim>\<open>unset('BAZ')\<close>, is written as
  \<^verbatim>\<open>//#define BAZ 1\<close>.
\<close>

theorem format_template_spacing:
  "(setting_value s = Some v \<and> v \<noteq> [] \<and> middle \<noteq> [] \<and> \<not> is_space (last middle) \<longrightarrow>
      ConfigFile_format_template s indent middle =
        Inr (rstrip (indent @ (if setting_active s then [] else ''//'') @ middle @ '' '' @ v)))
   \<and> (setting_value s = Some v \<and> v \<noteq> [] \<and> middle \<noteq> [] \<and>
       (last middle = CHR 0x09 \<or> last middle = CHR 0x20) \<longrightarrow>
      ConfigFile_format_template s indent middle =
        Inr (rstrip (indent @ (if setting_active s then [] else ''//'') @ middle @ v)))
   \<and> (setting_value s = None \<or> setting_value s = Some [] \<longrightarrow>
      ConfigFile_format_template s indent middle =
        Inr (rstrip (indent @ (if setting_active s then [] else ''//'') @ rstrip middle)))
   \<and> (\<forall>line. ConfigFile_format_template s indent middle = Inr line \<longrightarrow>
        (\<exists>m \<in> {middle, middle @ '' '', rstrip middle}.
           line = rstrip (indent @ (if setting_active s then [] else ''//'') @ m
                          @ (case setting_value s of None \<Rightarrow> [] | Some x \<Rightarrow> x))))
   \<and> (\<forall>line. ConfigFile_format_template s indent middle = Inr line \<longrightarrow>
        line = [] \<or> \<not> is_space (last line))
   \<and> (case ConfigFile_parse_line (example_file []) ''// #define FOO'' of
         Inr (cf, Some ev) \<Rightarrow>
           (case Config_set (example_parsed cf ev) ''FOO'' None of
              Inr c' \<Rightarrow>
                ConfigFile_write_to_stream (store c' 0) (cfg_settings c') []
                  = (''#define FOO'' @ [CHR 0x0A], None)
            | Inl e \<Rightarrow> False)
       | _ \<Rightarrow> False)
   \<and> (case ConfigFile_parse_line (example_file []) ''#define BAR'' of
         Inr (cf, Some ev) \<Rightarrow>
           (case Config_setitem (example_parsed cf ev) ''BAR'' (Some ''5'') of
              Inr c' \<Rightarrow>
                ConfigFile_write_to_stream (store c' 0) (cfg_settings c') []
                  = (''#define BAR 5'' @ [CHR 0x0A], None)
            | Inl e \<Rightarrow> False)
       | _ \<Rightarrow> False)
   \<and> (case ConfigFile_parse_line (example_file []) ''#define BAZ 1'' of
         Inr (cf, Some ev) \<Rightarrow>
           (case Config_unset (example_parsed cf ev) ''BAZ'' of c' \<Rightarrow>
              ConfigFile_write_to_stream (store c' 0) (cfg_settings c') []
                = (''//#define BAZ 1'' @ [CHR 0x0A], None))
       | _ \<Rightarrow> False)"
proof -
  have c1: "setting_value s = Some v \<and> v \<noteq> [] \<and> middle \<noteq> [] \<and> \<not> is_space (last middle) \<longrightarrow>
      ConfigFile_format_template s indent middle =
        Inr (rstrip (indent @ (if setting_active s then [] else ''//'') @ middle @ '' '' @ v))"
    using format_insert_space [of s v middle indent] by blast
  have c2: "setting_value s = Some v \<and> v \<noteq> [] \<and> middle \<noteq> [] \<and>
       (last middle = CHR 0x09 \<or> last middle = CHR 0x20) \<longrightarrow>
      ConfigFile_format_template s indent middle =
        Inr (rstrip (indent @ (if setting_active s then [] else ''//'') @ middle @ v))"
    using format_keep_separator [of s v middle indent] by blast
  have c3: "setting_value s = None \<or> setting_value s = Some [] \<longrightarrow>
      ConfigFile_format_template s indent middle =
        Inr (rstrip (indent @ (if setting_active s then [] else ''//'') @ rstrip middle))"
    using format_strip_prefix [of s indent middle] by blast
  have c4: "\<forall>line. ConfigFile_format_template s indent middle = Inr line \<longrightarrow>
        (\<exists>m \<in> {middle, middle @ '' '', rstrip middle}.
           line = rstrip (indent @ (if setting_active s then [] else ''//'') @ m
                          @ (case setting_value s of None \<Rightarrow> [] | Some x \<Rightarrow> x)))"
    using format_shape [of s indent middle] by blast
  have c5: "\<forall>line. ConfigFile_format_template s indent middle = Inr line \<longrightarrow>
        line = [] \<or> \<not> is_space (last line)"
    using format_trimmed [of s indent middle] by blast
  show ?thesis
    by (intro conjI) (rule c1, rule c2, rule c3, rule c4, rule c5,
      rule toggle_example, rule value_example, rule separator_example)
qed

theorem format_template_spacing_witness:
  "setting_value (Setting_init 0 False ''BAR'' (Some ''5'') None) = Some ''5''
   \<and> ''5'' \<noteq> [] \<and> ''#define BAR'' \<noteq> [] \<and> \<not> is_space (last ''#define BAR'')
   \<and> ConfigFile_format_template (Setting_init 0 False ''BAR'' (Some ''5'') None)
        ''  '' ''#define BAR'' = Inr ''  //#define BAR 5''
   \<and> \<not> is_space (last ''  //#define BAR 5'')
   \<and> setting_value (Setting_init 0 True ''FOO'' (Some []) None) = Some []
   \<and> ConfigFile_format_template (Setting_init 0 True ''FOO'' (Some []) None)
        '' '' ''#define FOO   '' = Inr '' #define FOO''
   \<and> setting_value (Setting_init 0 False ''BAZ'' (Some ''1'') None) = Some ''1''
   \<and> last ''#define BAZ '' = CHR 0x20
   \<and> ConfigFile_format_template (Setting_init 0 False ''BAZ'' (Some ''1'') None)
        [] ''#define BAZ '' = Inr ''//#define BAZ 1''
   \<and> ConfigFile_format_template (Setting_init 0 True ''BAZ'' (Some ''1'') None)
        [] ''#define BAZ '' = Inr ''#define BAZ 1''"
proof -
  have a: "ConfigFile_format_template (Setting_init 0 False ''BAR'' (Some ''5'') None)
             ''  '' ''#define BAR''
           = Inr (rstrip (''  '' @ ''//'' @ ''#define BAR'' @ '' '' @ ''5''))"
    using format_template_spacing [of "Setting_init 0 False ''BAR'' (Some ''5'') None" "''5''"
      "''#define BAR''" "''  ''", THEN conjunct1]
    by (simp add: Setting_init_def is_space_def)
  have b: "ConfigFile_format_template (Setting_init 0 True ''FOO'' (Some []) None)
             '' '' ''#define FOO   ''
           = Inr (rstrip ('' '' @ [] @ rstrip ''#define FOO   ''))"
    using format_template_spacing [of "Setting_init 0 True ''FOO'' (Some []) None" "[]"
      "''#define FOO   ''" "'' ''", THEN conjunct2, THEN conjunct2, THEN conjunct1]
    by (simp add: Setting_init_def)
  have c: "ConfigFile_format_template (Setting_init 0 False ''BAZ'' (Some ''1'') None)
             [] ''#define BAZ ''
           = Inr (rstrip ([] @ ''//'' @ ''#define BAZ '' @ ''1''))"
    using format_template_spacing [of "Setting_init 0 False ''BAZ'' (Some ''1'') None" "''1''"
      "''#define BAZ ''" "[]", THEN conjunct2, THEN conjunct1]
    by (simp add: Setting_init_def)
  have d: "ConfigFile_format_template (Setting_init 0 True ''BAZ'' (Some ''1'') None)
             [] ''#define BAZ ''
           = Inr (rstrip ([] @ [] @ ''#define BAZ '' @ ''1''))"
    using format_template_spacing [of "Setting_init 0 True ''BAZ'' (Some ''1'') None" "''1''"
      "''#define BAZ ''" "[]", THEN conjunct2, THEN conjunct1]
    by (simp add: Setting_init_def)
  show ?thesis
    unfolding a b c d
    by (simp add: Setting_init_def is_space_def rstrip_def)
qed

section \<open>Setting an unknown symbol\<close>

lemma write_templates_update:
  "name \<notin> set (param_names ts) \<Longrightarrow>
   write_templates ts (AList.update name x d) out = write_templates ts d out"
proof (induction ts arbitrary: out)
  case Nil
  then show ?case by simp
next
  case (Cons t ts)
  then show ?case
    by (cases t) (auto simp: AList.update_conv' split: option.splits sum.splits)
qed

text \<open>
  Claim C8: when \<^verbatim>\<open>name\<close> is not known and the configuration owns a file,
  \<^verbatim>\<open>set(name, value)\<close> returns without an exception; afterwards \<^verbatim>\<open>name\<close> is known and
  active, its setting is owned by the first file, and that file is marked modified; the
  template list of every file is as before; and every file whose parameterised templates
  refer to known names only (as they do when the settings come from parsing it) is written
  exactly as with the settings before the call: there is no line for the new symbol.
\<close>

theorem set_unknown_ghost:
  assumes "\<not> Config_known c name" and "cfg_configfiles c = r # rs"
  shows "\<exists>c'. Config_set c name v = Inr c'
     \<and> Config_contains c' name \<and> Config_known c' name
     \<and> map_of (cfg_settings c') name = Some (Setting_init r True name v None)
     \<and> cf_modified (store c' r)
     \<and> (\<forall>q. cf_templates (store c' q) = cf_templates (store c q))
     \<and> (\<forall>q. (\<forall>n \<in> set (param_names (cf_templates (store c q))). Config_known c n) \<longrightarrow>
            ConfigFile_write_to_stream (store c' q) (cfg_settings c') out
              = ConfigFile_write_to_stream (store c q) (cfg_settings c) out)"
proof -
  from assms(1) have u: "map_of (cfg_settings c) name = None"
    by (simp add: Config_known_def in_settings_def)
  let ?c' = "c\<lparr> cfg_settings :=
                   AList.update name (Setting_init r True name v None) (cfg_settings c),
                 store := mark_modified r (store c) \<rparr>"
  have s: "Config_set c name v = Inr ?c'"
    using u assms(2)
    by (simp add: Config_set_def Config_get_configfile_def in_settings_def first_configfile_def)
  have t: "cf_templates (store ?c' q) = cf_templates (store c q)" for q
    by (simp add: mark_modified_def)
  have w: "ConfigFile_write_to_stream (store ?c' q) (cfg_settings ?c') out
              = ConfigFile_write_to_stream (store c q) (cfg_settings c) out"
    if "\<forall>n \<in> set (param_names (cf_templates (store c q))). Config_known c n" for q
  proof -
    from that assms(1) have "name \<notin> set (param_names (cf_templates (store c q)))" by blast
    then show ?thesis
      unfolding ConfigFile_write_to_stream_def t
      by (simp add: write_templates_update)
  qed
  have p: "Config_contains ?c' name \<and> Config_known ?c' name
     \<and> map_of (cfg_settings ?c') name = Some (Setting_init r True name v None)
     \<and> cf_modified (store ?c' r)"
    by (simp add: Config_contains_def Config_known_def in_settings_def AList.update_conv'
        Setting_init_def mark_modified_def)
  from s t w p show ?thesis by blast
qed

theorem set_unknown_ghost_witness:
  "\<not> Config_known (example_baz True) ''NEW''
   \<and> cfg_configfiles (example_baz True) = [0]
   \<and> param_names (cf_templates (store (example_baz True) 0)) = [''BAZ'']
   \<and> Config_known (example_baz True) ''BAZ''
   \<and> ConfigFile_write_to_stream (store (example_baz True) 0) (cfg_settings (example_baz True)) []
       = (''#define BAZ 1'' @ [CHR 0x0A], None)
   \<and> (\<exists>c'. Config_set (example_baz True) ''NEW'' (Some ''7'') = Inr c'
         \<and> Config_contains c' ''NEW'' \<and> Config_known c' ''NEW''
         \<and> cf_modified (store c' 0)
         \<and> cf_templates (store c' 0) = [Param ''BAZ'' [] ''#define BAZ '']
         \<and> ConfigFile_write_to_stream (store c' 0) (cfg_settings c') []
             = (''#define BAZ 1'' @ [CHR 0x0A], None))"
proof -
  have k: "\<not> Config_known (example_baz True) ''NEW''"
    by (simp add: Config_known_def in_settings_def example_baz_def)
  have f: "cfg_configfiles (example_baz True) = [0]"
    by (simp add: example_baz_def)
  have n: "\<forall>n \<in> set (param_names (cf_templates (store (example_baz True) 0))).
             Config_known (example_baz True) n"
    by (simp add: Config_known_def in_settings_def example_baz_def example_file_def)
  have o: "ConfigFile_write_to_stream (store (example_baz True) 0)
             (cfg_settings (example_baz True)) [] = (''#define BAZ 1'' @ [CHR 0x0A], None)"
    by (simp add: example_baz_def example_file_def Setting_init_def
        ConfigFile_write_to_stream_def ConfigFile_format_template_def rstrip_def is_space_def)
  have t: "cf_templates (store (example_baz True) 0) = [Param ''BAZ'' [] ''#define BAZ '']"
    by (simp add: example_baz_def example_file_def)
  have b: "param_names (cf_templates (store (example_baz True) 0)) = [''BAZ'']
           \<and> Config_known (example_baz True) ''BAZ''"
    by (simp add: Config_known_def in_settings_def example_baz_def example_file_def)
  from set_unknown_ghost [OF k f, of "Some ''7''" "[]"] n o t k f b
  show ?thesis by auto
qed

section \<open>The modified flag is never cleared\<close>

lemma mark_modified_mono: "cf_modified (h r) \<Longrightarrow> cf_modified (mark_modified q h r)"
  by (simp add: mark_modified_def)

lemma adapt_loop_mono:
  "adapt_loop adapter d h = (d', h') \<Longrightarrow> cf_modified (h r) \<Longrightarrow> cf_modified (h' r)"
proof (induction d arbitrary: h d' h')
  case Nil
  then show ?case by simp
next
  case (Cons x d)
  obtain k s where x: "x = (k, s)" by (cases x)
  from Cons.prems show ?case
    unfolding x
    by (auto simp: Let_def split: prod.splits if_splits
             dest: Cons.IH intro: mark_modified_mono)
qed

lemma change_loop_mono:
  "change_loop search enable d h = (d', h') \<Longrightarrow> cf_modified (h r) \<Longrightarrow> cf_modified (h' r)"
proof (induction d arbitrary: h d' h')
  case Nil
  then show ?case by simp
next
  case (Cons x d)
  obtain k s where x: "x = (k, s)" by (cases x)
  obtain d1 h1 where r1: "change_loop search enable d
        (if search (setting_name s) \<and> setting_active s \<noteq> enable
         then mark_modified (setting_configfile s) h else h) = (d1, h1)"
    by (cases "change_loop search enable d
        (if search (setting_name s) \<and> setting_active s \<noteq> enable
         then mark_modified (setting_configfile s) h else h)")
  from Cons.prems(2)
  have "cf_modified ((if search (setting_name s) \<and> setting_active s \<noteq> enable
         then mark_modified (setting_configfile s) h else h) r)"
    by (simp add: mark_modified_mono)
  from Cons.IH [OF r1 this] have "cf_modified (h1 r)" .
  moreover from Cons.prems(1) r1 have "h' = h1"
    unfolding x by (auto simp: Let_def split: if_splits)
  ultimately show ?case by simp
qed









text \<open>
  The two loops mark the owner of every setting whose \<^verbatim>\<open>active\<close> flag they flip.
\<close>

lemma adapt_loop_marks:
  "adapt_loop adapter d h = (d', h') \<Longrightarrow> (k, s) \<in> set d \<Longrightarrow>
   adapter (setting_name s) (setting_active s) (setting_section s) \<noteq> setting_active s \<Longrightarrow>
   cf_modified (h' (setting_configfile s))"
proof (induction d arbitrary: h d' h')
  case Nil
  then show ?case by simp
next
  case (Cons x d)
  obtain k0 s0 where x: "x = (k0, s0)" by (cases x)
  let ?h1 = "if adapter (setting_name s0) (setting_active s0) (setting_section s0)
                  \<noteq> setting_active s0
             then mark_modified (setting_configfile s0) h else h"
  obtain d1 h1 where r1: "adapt_loop adapter d ?h1 = (d1, h1)"
    by (cases "adapt_loop adapter d ?h1")
  from Cons.prems(1) r1 have e: "h' = h1"
    unfolding x by (auto simp: Let_def split: if_splits)
  show ?case
  proof (cases "(k, s) = (k0, s0)")
    case True
    with Cons.prems(3) have "cf_modified (?h1 (setting_configfile s))"
      by (simp add: mark_modified_def)
    from adapt_loop_mono [OF r1 this] e show ?thesis by simp
  next
    case False
    with Cons.prems(2) x have "(k, s) \<in> set d" by auto
    from Cons.IH [OF r1 this Cons.prems(3)] e show ?thesis by simp
  qed
qed

lemma change_loop_marks:
  "change_loop search enable d h = (d', h') \<Longrightarrow> (k, s) \<in> set d \<Longrightarrow>
   search (setting_name s) \<Longrightarrow> setting_active s \<noteq> enable \<Longrightarrow>
   cf_modified (h' (setting_configfile s))"
proof (induction d arbitrary: h d' h')
  case Nil
  then show ?case by simp
next
  case (Cons x d)
  obtain k0 s0 where x: "x = (k0, s0)" by (cases x)
  let ?h1 = "if search (setting_name s0) \<and> setting_active s0 \<noteq> enable
             then mark_modified (setting_configfile s0) h else h"
  obtain d1 h1 where r1: "change_loop search enable d ?h1 = (d1, h1)"
    by (cases "change_loop search enable d ?h1")
  from Cons.prems(1) r1 have e: "h' = h1"
    unfolding x by (auto simp: Let_def split: if_splits)
  show ?case
  proof (cases "(k, s) = (k0, s0)")
    case True
    with Cons.prems(3,4) have "cf_modified (?h1 (setting_configfile s))"
      by (simp add: mark_modified_def)
    from change_loop_mono [OF r1 this] e show ?thesis by simp
  next
    case False
    with Cons.prems(2) x have "(k, s) \<in> set d" by auto
    from Cons.IH [OF r1 this Cons.prems(3,4)] e show ?thesis by simp
  qed
qed






end
